theory Spec2Isabelle
  imports Main
begin

section \<open>JavaScript values used by the tree options\<close>

text \<open>
  A JavaScript \<^verbatim>\<open>number\<close> is modelled by its integer values together with \<^verbatim>\<open>NaN\<close>.
  Both zeros are \<open>Finite 0\<close>. Fractions and the infinities are left out: the code below
  only tests a number for falsiness, compares it with \<^verbatim>\<open>0\<close> and adds the drop slot
  padding to it, and the statements proved here add small constants only.
\<close>

datatype number = Finite int | NaN

text \<open>\<^verbatim>\<open>a + b\<close> on numbers.\<close>

fun add :: "number \<Rightarrow> number \<Rightarrow> number" where
  "add (Finite a) (Finite b) = Finite (a + b)"
| "add _ _ = NaN"

text \<open>The numbers that count as false in a condition: \<^verbatim>\<open>0\<close>, \<^verbatim>\<open>-0\<close> and \<^verbatim>\<open>NaN\<close>.\<close>

fun falsy_number :: "number \<Rightarrow> bool" where
  "falsy_number (Finite n) = (n = 0)"
| "falsy_number NaN = True"

text \<open>Values of fields typed \<^verbatim>\<open>any\<close> (the raw data of a node, the raw event).\<close>

datatype jsval = JUndefined | JNull | JBool bool | JNumber number | JString string

fun truthy :: "jsval \<Rightarrow> bool" where
  "truthy JUndefined = False"
| "truthy JNull = False"
| "truthy (JBool b) = b"
| "truthy (JNumber n) = (\<not> falsy_number n)"
| "truthy (JString s) = (s \<noteq> [])"

text \<open>
  An optional property \<^verbatim>\<open>f?: T\<close> is a value of type \<open>T option\<close>; \<open>None\<close> is the
  property left unset, which reads as \<^verbatim>\<open>undefined\<close>. A plain object is a map from its
  property names; reading a missing property gives \<^verbatim>\<open>undefined\<close>.
\<close>

definition getProp :: "(string \<rightharpoonup> jsval) \<Rightarrow> string \<Rightarrow> jsval" where
  "getProp obj name = (case obj name of None \<Rightarrow> JUndefined | Some v \<Rightarrow> v)"

text \<open>
  Where the declared type is not enforced (the \<^verbatim>\<open>actionMapping\<close> option is typed
  \<^verbatim>\<open>any\<close>, and \<^verbatim>\<open>null\<close> passes for an object), a value is \<^verbatim>\<open>null\<close> or the object.
\<close>

datatype 'a nullable = IsNull | NotNull 'a

text \<open>\<^verbatim>\<open>a || b\<close> for an optional string and for an optional number.\<close>

definition or_string :: "string option \<Rightarrow> string \<Rightarrow> string" where
  "or_string a b = (case a of None \<Rightarrow> b | Some s \<Rightarrow> if s = [] then b else s)"

definition or_number :: "number option \<Rightarrow> number \<Rightarrow> number" where
  "or_number a b = (case a of None \<Rightarrow> b | Some n \<Rightarrow> if falsy_number n then b else n)"

text \<open>Truthiness of an optional boolean: \<^verbatim>\<open>undefined\<close> counts as false.\<close>

definition truthy_bool :: "bool option \<Rightarrow> bool" where
  "truthy_bool b = (case b of None \<Rightarrow> False | Some v \<Rightarrow> v)"

section \<open>Nodes and the tree model, as far as the options read them\<close>

text \<open>
  Of a tree node the options and the built-in actions read \<^verbatim>\<open>data\<close>, \<^verbatim>\<open>index\<close> and
  \<^verbatim>\<open>hasChildren\<close> (all declared by \<^verbatim>\<open>ITreeNode\<close>).
\<close>

record TreeNode =
  data :: "string \<rightharpoonup> jsval"
  index :: number
  hasChildren :: bool

text \<open>The tree model is only passed on by the code at hand; it is a reference.\<close>

datatype TreeModel = TreeModelRef nat

text \<open>The drop target \<^verbatim>\<open>{ parent, index, dropOnNode }\<close> and the payload of a move.\<close>

record DropTarget =
  parent :: TreeNode
  target_index :: number
  dropOnNode :: bool

record MoveData =
  from_node :: TreeNode
  to_target :: DropTarget

section \<open>Built-in actions\<close>

text \<open>
  The classes \<^verbatim>\<open>TreeNode\<close> and \<^verbatim>\<open>TreeModel\<close> are not among the sources at hand, so an
  action is modelled by the method invocations it performs, in order. None of the
  built-in actions assigns to anything itself: whatever changes, changes inside an
  invoked method. Dereferencing a \<^verbatim>\<open>null\<close> node or destructuring a missing payload
  throws a \<^verbatim>\<open>TypeError\<close>.
\<close>

datatype call =
    toggleActivated TreeNode "bool option"
  | setActive TreeNode bool
  | focus TreeNode
  | toggleExpanded TreeNode
  | expand TreeNode
  | collapse TreeNode
  | focusDrillDown TreeModel
  | focusDrillUp TreeModel
  | focusNextNode TreeModel
  | focusPreviousNode TreeModel
  | moveNode TreeModel TreeNode DropTarget

datatype js_error = TypeError

type_synonym IActionHandler =
  "TreeModel \<Rightarrow> TreeNode option \<Rightarrow> jsval \<Rightarrow> MoveData option \<Rightarrow> js_error + call list"

definition TOGGLE_SELECTED :: IActionHandler where
  "TOGGLE_SELECTED tree node event rest =
     (case node of None \<Rightarrow> Inr [] | Some n \<Rightarrow> Inr [toggleActivated n None])"

definition TOGGLE_SELECTED_MULTI :: IActionHandler where
  "TOGGLE_SELECTED_MULTI tree node event rest =
     (case node of None \<Rightarrow> Inr [] | Some n \<Rightarrow> Inr [toggleActivated n (Some True)])"

definition SELECT :: IActionHandler where
  "SELECT tree node event rest =
     (case node of None \<Rightarrow> Inl TypeError | Some n \<Rightarrow> Inr [setActive n True])"

definition DESELECT :: IActionHandler where
  "DESELECT tree node event rest =
     (case node of None \<Rightarrow> Inl TypeError | Some n \<Rightarrow> Inr [setActive n False])"

definition FOCUS :: IActionHandler where
  "FOCUS tree node event rest =
     (case node of None \<Rightarrow> Inl TypeError | Some n \<Rightarrow> Inr [focus n])"

definition TOGGLE_EXPANDED :: IActionHandler where
  "TOGGLE_EXPANDED tree node event rest =
     (case node of None \<Rightarrow> Inl TypeError
      | Some n \<Rightarrow> if hasChildren n then Inr [toggleExpanded n] else Inr [])"

definition EXPAND :: IActionHandler where
  "EXPAND tree node event rest =
     (case node of None \<Rightarrow> Inl TypeError | Some n \<Rightarrow> Inr [expand n])"

definition COLLAPSE :: IActionHandler where
  "COLLAPSE tree node event rest =
     (case node of None \<Rightarrow> Inl TypeError | Some n \<Rightarrow> Inr [collapse n])"

definition DRILL_DOWN :: IActionHandler where
  "DRILL_DOWN tree node event rest = Inr [focusDrillDown tree]"

definition DRILL_UP :: IActionHandler where
  "DRILL_UP tree node event rest = Inr [focusDrillUp tree]"

definition NEXT_NODE :: IActionHandler where
  "NEXT_NODE tree node event rest = Inr [focusNextNode tree]"

definition PREVIOUS_NODE :: IActionHandler where
  "PREVIOUS_NODE tree node event rest = Inr [focusPreviousNode tree]"

definition MOVE_NODE :: IActionHandler where
  "MOVE_NODE tree node event rest =
     (case rest of None \<Rightarrow> Inl TypeError
      | Some m \<Rightarrow> Inr [moveNode tree (from_node m) (to_target m)])"

text \<open>
  What a run of an action does to a state \<open>s\<close>, for any meaning \<open>sem\<close> of the invoked
  methods: the invocations are applied in order.
\<close>

fun perform :: "(call \<Rightarrow> 's \<Rightarrow> 's) \<Rightarrow> call list \<Rightarrow> 's \<Rightarrow> 's" where
  "perform sem [] s = s"
| "perform sem (c # cs) s = perform sem cs (sem c s)"

definition run_action ::
  "(call \<Rightarrow> 's \<Rightarrow> 's) \<Rightarrow> js_error + call list \<Rightarrow> 's \<Rightarrow> js_error + 's" where
  "run_action sem outcome s =
     (case outcome of Inl e \<Rightarrow> Inl e | Inr cs \<Rightarrow> Inr (perform sem cs s))"

section \<open>The action mapping\<close>

text \<open>
  A slot of the action mapping holds a handler or an explicit \<^verbatim>\<open>null\<close>; a slot that is
  not there is \<open>None\<close>. The \<^verbatim>\<open>mouse\<close> object is keyed by the gesture name, the
  \<^verbatim>\<open>keys\<close> object by the key code. Each of the two categories is left out (\<open>None\<close>),
  set to \<^verbatim>\<open>null\<close> or an object.
\<close>

datatype 'h slot = Null | Handler 'h

record 'h IActionMapping =
  mouse :: "(string \<rightharpoonup> 'h slot) nullable option"
  keys :: "(nat \<rightharpoonup> 'h slot) nullable option"

text \<open>
  The key codes \<^verbatim>\<open>NUMBER_KEYS\<close> come from \<^verbatim>\<open>../constants/keys\<close>, which is not among
  the sources at hand: they are a parameter.
\<close>

record NUMBER_KEYS =
  RIGHT :: nat
  LEFT :: nat
  DOWN :: nat
  UP :: nat
  SPACE :: nat
  ENTER :: nat

text \<open>
  The object literals of \<^verbatim>\<open>defaultActionMapping\<close>. Computed keys are written in the
  literal's order, so that of two equal key codes the later entry stays.
\<close>

definition defaultMouse :: "string \<rightharpoonup> IActionHandler slot" where
  "defaultMouse =
     [''click'' \<mapsto> Handler TOGGLE_SELECTED,
      ''dblClick'' \<mapsto> Null,
      ''contextMenu'' \<mapsto> Null,
      ''expanderClick'' \<mapsto> Handler TOGGLE_EXPANDED,
      ''drop'' \<mapsto> Handler MOVE_NODE]"

definition defaultKeys :: "NUMBER_KEYS \<Rightarrow> nat \<rightharpoonup> IActionHandler slot" where
  "defaultKeys nk =
     [RIGHT nk \<mapsto> Handler DRILL_DOWN,
      LEFT nk \<mapsto> Handler DRILL_UP,
      DOWN nk \<mapsto> Handler NEXT_NODE,
      UP nk \<mapsto> Handler PREVIOUS_NODE,
      SPACE nk \<mapsto> Handler TOGGLE_SELECTED,
      ENTER nk \<mapsto> Handler TOGGLE_SELECTED]"

definition defaultActionMapping :: "NUMBER_KEYS \<Rightarrow> IActionHandler IActionMapping" where
  "defaultActionMapping nk =
     \<lparr> mouse = Some (NotNull defaultMouse), keys = Some (NotNull (defaultKeys nk)) \<rparr>"

subsection \<open>lodash's \<^verbatim>\<open>defaultsDeep\<close> on action mappings\<close>

text \<open>
  \<^verbatim>\<open>defaultsDeep(object, ...sources)\<close> merges the sources into \<open>object\<close> from left to
  right. For a property whose source value is \<^verbatim>\<open>undefined\<close> nothing changes. A property
  of \<open>object\<close> that is \<^verbatim>\<open>undefined\<close> takes the source value; any other value of
  \<open>object\<close>, \<^verbatim>\<open>null\<close> included, stays. Two plain objects are merged property by
  property by the same rule. (Two functions would be merged as objects as well; handlers
  carry no enumerable properties, so the handler of \<open>object\<close> stays as it is.)
  The rule holds for a whole category as for a slot: a \<^verbatim>\<open>mouse\<close> or \<^verbatim>\<open>keys\<close> that is
  \<^verbatim>\<open>null\<close> in \<open>object\<close> stays \<^verbatim>\<open>null\<close>, whatever the source holds, and a category
  that is an object in the source is cloned into an \<^verbatim>\<open>undefined\<close> one.
\<close>

definition assignDefault :: "'v option \<Rightarrow> 'v option \<Rightarrow> 'v option" where
  "assignDefault objValue srcValue =
     (case objValue of None \<Rightarrow> srcValue | Some v \<Rightarrow> Some v)"

definition mergeObject :: "('k \<rightharpoonup> 'v) \<Rightarrow> ('k \<rightharpoonup> 'v) \<Rightarrow> ('k \<rightharpoonup> 'v)" where
  "mergeObject object source = (\<lambda>key. assignDefault (object key) (source key))"

definition mergeDeep ::
  "('k \<rightharpoonup> 'v) nullable option \<Rightarrow> ('k \<rightharpoonup> 'v) nullable option \<Rightarrow> ('k \<rightharpoonup> 'v) nullable option" where
  "mergeDeep objValue srcValue =
     (case srcValue of
        None \<Rightarrow> objValue
      | Some IsNull \<Rightarrow>
          (case objValue of None \<Rightarrow> Some IsNull | Some kept \<Rightarrow> Some kept)
      | Some (NotNull src) \<Rightarrow>
          (case objValue of
             None \<Rightarrow> Some (NotNull (mergeObject Map.empty src))
           | Some IsNull \<Rightarrow> Some IsNull
           | Some (NotNull obj) \<Rightarrow> Some (NotNull (mergeObject obj src))))"

definition mergeMapping :: "'h IActionMapping \<Rightarrow> 'h IActionMapping option \<Rightarrow> 'h IActionMapping" where
  "mergeMapping object source =
     (case source of
        None \<Rightarrow> object
      | Some src \<Rightarrow>
          \<lparr> mouse = mergeDeep (mouse object) (mouse src),
            keys = mergeDeep (keys object) (keys src) \<rparr>)"

definition emptyMapping :: "'h IActionMapping" where
  "emptyMapping = \<lparr> mouse = None, keys = None \<rparr>"

definition defaultsDeep ::
  "'h IActionMapping \<Rightarrow> 'h IActionMapping option \<Rightarrow> 'h IActionMapping option \<Rightarrow> 'h IActionMapping" where
  "defaultsDeep object source1 source2 = mergeMapping (mergeMapping object source1) source2"

text \<open>
  The entry a category holds for a key, \<^verbatim>\<open>mapping.mouse[name]\<close> or
  \<^verbatim>\<open>mapping.keys[code]\<close>. A category that is left out or \<^verbatim>\<open>null\<close> holds no entry.
\<close>

definition entry :: "('k \<rightharpoonup> 'v) nullable option \<Rightarrow> 'k \<Rightarrow> 'v option" where
  "entry category key =
     (case category of
        None \<Rightarrow> None
      | Some IsNull \<Rightarrow> None
      | Some (NotNull obj) \<Rightarrow> obj key)"

section \<open>The options\<close>

datatype NodeHeight = HeightNumber number | HeightFn "TreeNode \<Rightarrow> number"

datatype AllowDrag = AllowDragBool bool | AllowDragFn "TreeNode \<Rightarrow> bool"

datatype AllowDrop = AllowDropBool bool | AllowDropFn "jsval \<Rightarrow> DropTarget \<Rightarrow> jsval \<Rightarrow> bool"

text \<open>
  \<^verbatim>\<open>ITreeOptions\<close>, the options the user supplies. The fields carry the prefix
  \<open>options_\<close>, as in \<^verbatim>\<open>this.options.childrenField\<close>; the bare names are the getters
  of \<^verbatim>\<open>TreeOptions\<close>.
\<close>

record ITreeOptions =
  options_childrenField :: "string option"
  options_displayField :: "string option"
  options_idField :: "string option"
  options_isExpandedField :: "string option"
  options_isHiddenField :: "string option"
  options_actionMapping :: "IActionHandler IActionMapping option"
  options_levelPadding :: "number option"
  options_useVirtualScroll :: "bool option"
  options_nodeHeight :: "NodeHeight option"
  options_enableDragAndDrop :: "bool option"
  options_allowDrag :: "AllowDrag option"
  options_allowDrop :: "AllowDrop option"
  options_dropSlotHeight :: "number option"
  options_getChildren :: "(TreeNode \<Rightarrow> jsval) option"
  options_nodeClass :: "(TreeNode \<Rightarrow> string) option"

text \<open>The empty object \<^verbatim>\<open>{}\<close>.\<close>

definition emptyOptions :: ITreeOptions where
  "emptyOptions =
     \<lparr> options_childrenField = None, options_displayField = None, options_idField = None,
       options_isExpandedField = None, options_isHiddenField = None,
       options_actionMapping = None, options_levelPadding = None,
       options_useVirtualScroll = None, options_nodeHeight = None,
       options_enableDragAndDrop = None, options_allowDrag = None,
       options_allowDrop = None, options_dropSlotHeight = None,
       options_getChildren = None, options_nodeClass = None \<rparr>"

record TreeOptions =
  options :: ITreeOptions
  actionMapping :: "IActionHandler IActionMapping"

text \<open>
  The constructor, for an argument that is an object or left out. The parameter
  defaults to \<^verbatim>\<open>{}\<close> when the argument is left out.
\<close>

definition TreeOptions_new :: "NUMBER_KEYS \<Rightarrow> ITreeOptions option \<Rightarrow> TreeOptions" where
  "TreeOptions_new nk arg =
     (let opts = (case arg of None \<Rightarrow> emptyOptions | Some given \<Rightarrow> given)
      in \<lparr> options = opts,
           actionMapping =
             defaultsDeep emptyMapping (options_actionMapping opts)
               (Some (defaultActionMapping nk)) \<rparr>)"

text \<open>
  The call \<^verbatim>\<open>new TreeOptions(arg)\<close> for every argument. The default \<^verbatim>\<open>{}\<close> stands in
  for \<^verbatim>\<open>undefined\<close> only: with \<^verbatim>\<open>null\<close> the constructor reads
  \<^verbatim>\<open>this.options.actionMapping\<close> of \<^verbatim>\<open>null\<close> and throws.
\<close>

definition new_TreeOptions ::
  "NUMBER_KEYS \<Rightarrow> ITreeOptions nullable option \<Rightarrow> js_error + TreeOptions" where
  "new_TreeOptions nk arg =
     (case arg of
        None \<Rightarrow> Inr (TreeOptions_new nk None)
      | Some IsNull \<Rightarrow> Inl TypeError
      | Some (NotNull given) \<Rightarrow> Inr (TreeOptions_new nk (Some given)))"

definition childrenField :: "TreeOptions \<Rightarrow> string" where
  "childrenField this = or_string (options_childrenField (options this)) ''children''"

definition displayField :: "TreeOptions \<Rightarrow> string" where
  "displayField this = or_string (options_displayField (options this)) ''name''"

definition idField :: "TreeOptions \<Rightarrow> string" where
  "idField this = or_string (options_idField (options this)) ''id''"

definition isExpandedField :: "TreeOptions \<Rightarrow> string" where
  "isExpandedField this = or_string (options_isExpandedField (options this)) ''isExpanded''"

definition isHiddenField :: "TreeOptions \<Rightarrow> string" where
  "isHiddenField this = or_string (options_isHiddenField (options this)) ''isHidden''"

definition getChildren :: "TreeOptions \<Rightarrow> (TreeNode \<Rightarrow> jsval) option" where
  "getChildren this = options_getChildren (options this)"

definition levelPadding :: "TreeOptions \<Rightarrow> number" where
  "levelPadding this = or_number (options_levelPadding (options this)) (Finite 0)"

definition useVirtualScroll :: "TreeOptions \<Rightarrow> bool option" where
  "useVirtualScroll this = options_useVirtualScroll (options this)"

definition dropSlotHeight :: "TreeOptions \<Rightarrow> number" where
  "dropSlotHeight this = or_number (options_dropSlotHeight (options this)) (Finite 2)"

definition enableDragAndDrop :: "TreeOptions \<Rightarrow> bool option" where
  "enableDragAndDrop this = options_enableDragAndDrop (options this)"

definition nodeClass :: "TreeOptions \<Rightarrow> TreeNode \<Rightarrow> string" where
  "nodeClass this node =
     (case options_nodeClass (options this) of None \<Rightarrow> [] | Some f \<Rightarrow> f node)"

text \<open>
  \<^verbatim>\<open>nodeHeight\<close>: a function is always truthy, a number is replaced by \<^verbatim>\<open>22\<close> when
  it is falsy.
\<close>

definition nodeHeight :: "TreeOptions \<Rightarrow> TreeNode \<Rightarrow> number" where
  "nodeHeight this node =
     (if truthy (getProp (data node) ''virtual'') then Finite 0
      else
        let configured =
              (case options_nodeHeight (options this) of
                 None \<Rightarrow> HeightNumber (Finite 22)
               | Some (HeightNumber n) \<Rightarrow>
                   if falsy_number n then HeightNumber (Finite 22) else HeightNumber n
               | Some (HeightFn f) \<Rightarrow> HeightFn f);
            height = (case configured of HeightFn f \<Rightarrow> f node | HeightNumber n \<Rightarrow> n)
        in add height (if index node = Finite 0 then Finite 2 else Finite 1))"

definition allowDrop :: "TreeOptions \<Rightarrow> jsval \<Rightarrow> DropTarget \<Rightarrow> jsval \<Rightarrow> bool" where
  "allowDrop this element to event =
     (case options_allowDrop (options this) of
        Some (AllowDropFn f) \<Rightarrow> f element to event
      | Some (AllowDropBool b) \<Rightarrow> b
      | None \<Rightarrow> True)"

definition allowDrag :: "TreeOptions \<Rightarrow> TreeNode \<Rightarrow> bool option" where
  "allowDrag this node =
     (case options_allowDrag (options this) of
        Some (AllowDragFn f) \<Rightarrow> Some (f node)
      | Some (AllowDragBool b) \<Rightarrow> Some b
      | None \<Rightarrow> None)"

section \<open>Concrete inputs\<close>

text \<open>
  Key codes as browsers report them, a node, a drop target, a user mapping, a user
  mapping with \<^verbatim>\<open>mouse: null\<close>, one with \<^verbatim>\<open>keys: null\<close> and a node height given as a
  function.
\<close>

definition exampleKeys :: NUMBER_KEYS where
  "exampleKeys = \<lparr> RIGHT = 39, LEFT = 37, DOWN = 40, UP = 38, SPACE = 32, ENTER = 13 \<rparr>"

definition exampleNode :: "int \<Rightarrow> bool \<Rightarrow> TreeNode" where
  "exampleNode i sentinel =
     \<lparr> data = (if sentinel then [''virtual'' \<mapsto> JBool True] else [''name'' \<mapsto> JString ''leaf'']),
       index = Finite i, hasChildren = False \<rparr>"

definition exampleTarget :: DropTarget where
  "exampleTarget = \<lparr> parent = exampleNode 0 False, target_index = Finite 1, dropOnNode = False \<rparr>"

definition exampleMapping :: "IActionHandler IActionMapping" where
  "exampleMapping =
     \<lparr> mouse = Some (NotNull [''click'' \<mapsto> Null, ''dblClick'' \<mapsto> Handler EXPAND]),
       keys = Some (NotNull [13 \<mapsto> Null, 46 \<mapsto> Handler DESELECT]) \<rparr>"

definition exampleNullMouse :: "IActionHandler IActionMapping" where
  "exampleNullMouse = \<lparr> mouse = Some IsNull, keys = None \<rparr>"

definition exampleNullKeys :: "IActionHandler IActionMapping" where
  "exampleNullKeys = \<lparr> mouse = None, keys = Some IsNull \<rparr>"

definition exampleHeightFn :: NodeHeight where
  "exampleHeightFn = HeightFn (\<lambda>node. Finite 30)"

section \<open>The constructor\<close>

lemma options_of_new [simp]: "options (TreeOptions_new nk (Some opts)) = opts"
  by (simp add: TreeOptions_new_def)

lemma options_of_new_default [simp]: "options (TreeOptions_new nk None) = emptyOptions"
  by (simp add: TreeOptions_new_def)

lemma new_TreeOptions_null: "new_TreeOptions nk (Some IsNull) = Inl TypeError"
  by (simp add: new_TreeOptions_def)

section \<open>Node height\<close>

text \<open>
  Claim C2. With the constant node height 20 configured, a node whose data is not the
  virtual sentinel has height 22 at index 0 and height 21 at index 3. A node whose data
  is the virtual sentinel has height 0 at every index, whatever the options are: a
  constant, a function, or none.
\<close>

theorem nodeHeight_constant_20:
  "(options_nodeHeight opts = Some (HeightNumber (Finite 20))
      \<and> \<not> truthy (getProp (data node) ''virtual'') \<and> index node = Finite 0 \<longrightarrow>
        nodeHeight (TreeOptions_new nk (Some opts)) node = Finite 22)
   \<and> (options_nodeHeight opts = Some (HeightNumber (Finite 20))
      \<and> \<not> truthy (getProp (data node) ''virtual'') \<and> index node = Finite 3 \<longrightarrow>
        nodeHeight (TreeOptions_new nk (Some opts)) node = Finite 21)
   \<and> (truthy (getProp (data node) ''virtual'') \<longrightarrow>
        nodeHeight (TreeOptions_new nk arg) node = Finite 0)"
  by (simp add: nodeHeight_def)

theorem nodeHeight_constant_20_witness:
  "nodeHeight (TreeOptions_new exampleKeys
      (Some (emptyOptions\<lparr>options_nodeHeight := Some (HeightNumber (Finite 20))\<rparr>)))
      (exampleNode 0 False) = Finite 22
   \<and> nodeHeight (TreeOptions_new exampleKeys
      (Some (emptyOptions\<lparr>options_nodeHeight := Some (HeightNumber (Finite 20))\<rparr>)))
      (exampleNode 3 False) = Finite 21
   \<and> nodeHeight (TreeOptions_new exampleKeys
      (Some (emptyOptions\<lparr>options_nodeHeight := Some (HeightNumber (Finite 20))\<rparr>)))
      (exampleNode 3 True) = Finite 0
   \<and> nodeHeight (TreeOptions_new exampleKeys
      (Some (emptyOptions\<lparr>options_nodeHeight := Some exampleHeightFn\<rparr>)))
      (exampleNode 0 True) = Finite 0
   \<and> nodeHeight (TreeOptions_new exampleKeys None) (exampleNode 7 True) = Finite 0"
  using
    nodeHeight_constant_20 [where opts = "emptyOptions\<lparr>options_nodeHeight := Some (HeightNumber (Finite 20))\<rparr>"
      and node = "exampleNode 0 False" and nk = exampleKeys]
    nodeHeight_constant_20 [where opts = "emptyOptions\<lparr>options_nodeHeight := Some (HeightNumber (Finite 20))\<rparr>"
      and node = "exampleNode 3 False" and nk = exampleKeys]
    nodeHeight_constant_20 [where node = "exampleNode 3 True" and nk = exampleKeys
      and arg = "Some (emptyOptions\<lparr>options_nodeHeight := Some (HeightNumber (Finite 20))\<rparr>)"]
    nodeHeight_constant_20 [where node = "exampleNode 0 True" and nk = exampleKeys
      and arg = "Some (emptyOptions\<lparr>options_nodeHeight := Some exampleHeightFn\<rparr>)"]
    nodeHeight_constant_20 [where node = "exampleNode 7 True" and nk = exampleKeys
      and arg = None]
  by (simp add: exampleNode_def getProp_def)

text \<open>
  Claim C10. With the \<^verbatim>\<open>nodeHeight\<close> option unset the base height is 22: a node whose
  data is not the virtual sentinel has height 24 at index 0 and height 23 at every other
  index. The same holds when the constructor gets no argument at all.
\<close>

theorem nodeHeight_unset:
  assumes "options_nodeHeight opts = None"
    and "\<not> truthy (getProp (data node) ''virtual'')"
  shows "nodeHeight (TreeOptions_new nk (Some opts)) node =
           (if index node = Finite 0 then Finite 24 else Finite 23)
       \<and> nodeHeight (TreeOptions_new nk None) node =
           (if index node = Finite 0 then Finite 24 else Finite 23)"
  using assms by (simp add: nodeHeight_def emptyOptions_def)

theorem nodeHeight_unset_witness:
  "nodeHeight (TreeOptions_new exampleKeys (Some emptyOptions)) (exampleNode 0 False) = Finite 24
   \<and> nodeHeight (TreeOptions_new exampleKeys (Some emptyOptions)) (exampleNode 5 False) = Finite 23
   \<and> nodeHeight (TreeOptions_new exampleKeys None) (exampleNode 5 False) = Finite 23"
  using nodeHeight_unset [of emptyOptions "exampleNode 0 False" exampleKeys]
    nodeHeight_unset [of emptyOptions "exampleNode 5 False" exampleKeys]
  by (simp add: exampleNode_def getProp_def emptyOptions_def)

section \<open>Getters with a fallback\<close>

text \<open>
  Claim C5. When the user option is unset, the getters \<^verbatim>\<open>childrenField\<close>,
  \<^verbatim>\<open>displayField\<close>, \<^verbatim>\<open>idField\<close>, \<^verbatim>\<open>isExpandedField\<close> and \<^verbatim>\<open>isHiddenField\<close> return
  the literals "children", "name", "id", "isExpanded" and "isHidden", and
  \<^verbatim>\<open>levelPadding\<close> and \<^verbatim>\<open>dropSlotHeight\<close> return 0 and 2.
\<close>

theorem getters_unset:
  "(options_childrenField opts = None \<longrightarrow>
      childrenField (TreeOptions_new nk (Some opts)) = ''children'')
   \<and> (options_displayField opts = None \<longrightarrow>
      displayField (TreeOptions_new nk (Some opts)) = ''name'')
   \<and> (options_idField opts = None \<longrightarrow>
      idField (TreeOptions_new nk (Some opts)) = ''id'')
   \<and> (options_isExpandedField opts = None \<longrightarrow>
      isExpandedField (TreeOptions_new nk (Some opts)) = ''isExpanded'')
   \<and> (options_isHiddenField opts = None \<longrightarrow>
      isHiddenField (TreeOptions_new nk (Some opts)) = ''isHidden'')
   \<and> (options_levelPadding opts = None \<longrightarrow>
      levelPadding (TreeOptions_new nk (Some opts)) = Finite 0)
   \<and> (options_dropSlotHeight opts = None \<longrightarrow>
      dropSlotHeight (TreeOptions_new nk (Some opts)) = Finite 2)"
  by (simp add: childrenField_def displayField_def idField_def isExpandedField_def
      isHiddenField_def levelPadding_def dropSlotHeight_def or_string_def or_number_def)

theorem getters_unset_witness:
  "childrenField (TreeOptions_new exampleKeys (Some emptyOptions)) = ''children''
   \<and> displayField (TreeOptions_new exampleKeys (Some emptyOptions)) = ''name''
   \<and> idField (TreeOptions_new exampleKeys (Some emptyOptions)) = ''id''
   \<and> isExpandedField (TreeOptions_new exampleKeys (Some emptyOptions)) = ''isExpanded''
   \<and> isHiddenField (TreeOptions_new exampleKeys (Some emptyOptions)) = ''isHidden''
   \<and> levelPadding (TreeOptions_new exampleKeys (Some emptyOptions)) = Finite 0
   \<and> dropSlotHeight (TreeOptions_new exampleKeys (Some emptyOptions)) = Finite 2"
  using getters_unset [of emptyOptions exampleKeys]
  by (simp add: emptyOptions_def)

text \<open>
  Claim C9. A \<^verbatim>\<open>dropSlotHeight\<close> that the user sets to 0 is replaced by the default:
  the getter returns 2, as it does for every falsy number.
\<close>

theorem dropSlotHeight_falsy:
  "(options_dropSlotHeight opts = Some (Finite 0) \<longrightarrow>
      dropSlotHeight (TreeOptions_new nk (Some opts)) = Finite 2)
   \<and> (options_dropSlotHeight opts = Some n \<and> falsy_number n \<longrightarrow>
      dropSlotHeight (TreeOptions_new nk (Some opts)) = Finite 2)"
  by (simp add: dropSlotHeight_def or_number_def)

theorem dropSlotHeight_falsy_witness:
  "dropSlotHeight (TreeOptions_new exampleKeys
      (Some (emptyOptions\<lparr>options_dropSlotHeight := Some (Finite 0)\<rparr>))) = Finite 2
   \<and> falsy_number NaN
   \<and> dropSlotHeight (TreeOptions_new exampleKeys
      (Some (emptyOptions\<lparr>options_dropSlotHeight := Some NaN\<rparr>))) = Finite 2"
  using dropSlotHeight_falsy [of "emptyOptions\<lparr>options_dropSlotHeight := Some (Finite 0)\<rparr>" exampleKeys]
    dropSlotHeight_falsy [where opts = "emptyOptions\<lparr>options_dropSlotHeight := Some NaN\<rparr>"
      and nk = exampleKeys and n = NaN]
  by simp

section \<open>Drop permission\<close>

text \<open>
  Claim C8. \<^verbatim>\<open>allowDrop(element, to, $event)\<close> is true when the option is unset, is
  the option's boolean as it is (false included) when the option is not a function, and
  is the function applied to \<^verbatim>\<open>(element, to, $event)\<close> when the option is a function.
\<close>

theorem allowDrop_cases:
  "(options_allowDrop opts = None \<longrightarrow>
      allowDrop (TreeOptions_new nk (Some opts)) element to event = True)
   \<and> (options_allowDrop opts = Some (AllowDropBool b) \<longrightarrow>
      allowDrop (TreeOptions_new nk (Some opts)) element to event = b)
   \<and> (options_allowDrop opts = Some (AllowDropFn f) \<longrightarrow>
      allowDrop (TreeOptions_new nk (Some opts)) element to event = f element to event)"
  by (simp add: allowDrop_def)

theorem allowDrop_cases_witness:
  "allowDrop (TreeOptions_new exampleKeys (Some emptyOptions))
      (JString ''item'') exampleTarget JUndefined = True
   \<and> allowDrop (TreeOptions_new exampleKeys
        (Some (emptyOptions\<lparr>options_allowDrop := Some (AllowDropBool False)\<rparr>)))
      (JString ''item'') exampleTarget JUndefined = False
   \<and> allowDrop (TreeOptions_new exampleKeys
        (Some (emptyOptions\<lparr>options_allowDrop :=
           Some (AllowDropFn (\<lambda>element to event. dropOnNode to))\<rparr>)))
      (JString ''item'') exampleTarget JUndefined = dropOnNode exampleTarget"
  using allowDrop_cases [of emptyOptions exampleKeys "JString ''item''" exampleTarget JUndefined]
    allowDrop_cases [where opts = "emptyOptions\<lparr>options_allowDrop := Some (AllowDropBool False)\<rparr>"
      and b = False and nk = exampleKeys and element = "JString ''item''"
      and to = exampleTarget and event = JUndefined]
    allowDrop_cases [where opts = "emptyOptions\<lparr>options_allowDrop :=
           Some (AllowDropFn (\<lambda>element to event. dropOnNode to))\<rparr>"
      and f = "\<lambda>element to event. dropOnNode to" and nk = exampleKeys
      and element = "JString ''item''" and to = exampleTarget and event = JUndefined]
  by (simp add: emptyOptions_def)

section \<open>The resolved action mapping\<close>

lemma mergeObject_empty [simp]: "mergeObject Map.empty source = source"
  by (simp add: mergeObject_def assignDefault_def)

lemma entry_simps [simp]:
  "entry None key = None"
  "entry (Some IsNull) key = None"
  "entry (Some (NotNull obj)) key = obj key"
  by (simp_all add: entry_def)

lemma resolved_mouse_entry:
  "entry (mouse (actionMapping (TreeOptions_new nk (Some opts)))) name =
     (case options_actionMapping opts of
        None \<Rightarrow> defaultMouse name
      | Some user \<Rightarrow>
          (case mouse user of
             Some IsNull \<Rightarrow> None
           | _ \<Rightarrow> assignDefault (entry (mouse user) name) (defaultMouse name)))"
  by (simp add: TreeOptions_new_def defaultsDeep_def mergeMapping_def mergeDeep_def
      emptyMapping_def defaultActionMapping_def mergeObject_def assignDefault_def
      split: option.splits nullable.splits)

lemma resolved_keys_entry:
  "entry (keys (actionMapping (TreeOptions_new nk (Some opts)))) code =
     (case options_actionMapping opts of
        None \<Rightarrow> defaultKeys nk code
      | Some user \<Rightarrow>
          (case keys user of
             Some IsNull \<Rightarrow> None
           | _ \<Rightarrow> assignDefault (entry (keys user) code) (defaultKeys nk code)))"
  by (simp add: TreeOptions_new_def defaultsDeep_def mergeMapping_def mergeDeep_def
      emptyMapping_def defaultActionMapping_def mergeObject_def assignDefault_def
      split: option.splits nullable.splits)

lemma resolved_default:
  "actionMapping (TreeOptions_new nk None) = defaultActionMapping nk"
  by (simp add: TreeOptions_new_def emptyOptions_def defaultsDeep_def mergeMapping_def
      mergeDeep_def emptyMapping_def defaultActionMapping_def)

lemma default_entries:
  "entry (mouse (defaultActionMapping nk)) name = defaultMouse name"
  "entry (keys (defaultActionMapping nk)) code = defaultKeys nk code"
  by (simp_all add: defaultActionMapping_def)

lemma resolved_without_user:
  "options_actionMapping opts = None \<Longrightarrow>
     actionMapping (TreeOptions_new nk (Some opts)) = defaultActionMapping nk"
  by (simp add: TreeOptions_new_def defaultsDeep_def mergeMapping_def
      mergeDeep_def emptyMapping_def defaultActionMapping_def)

lemma resolved_null_category:
  assumes "options_actionMapping opts = Some user"
  shows "mouse user = Some IsNull \<Longrightarrow>
           mouse (actionMapping (TreeOptions_new nk (Some opts))) = Some IsNull"
    and "keys user = Some IsNull \<Longrightarrow>
           keys (actionMapping (TreeOptions_new nk (Some opts))) = Some IsNull"
  using assms
  by (simp_all add: TreeOptions_new_def defaultsDeep_def mergeMapping_def mergeDeep_def
      emptyMapping_def defaultActionMapping_def)

lemma defaultKeys_handler:
  "code \<in> {RIGHT nk, LEFT nk, DOWN nk, UP nk, SPACE nk, ENTER nk} \<Longrightarrow>
     \<exists>h. defaultKeys nk code = Some (Handler h)"
  by (simp add: defaultKeys_def) blast

lemma defaultMouse_drag:
  "name \<in> {''dragStart'', ''drag'', ''dragEnd'', ''dragOver'', ''dragLeave'', ''dragEnter''} \<Longrightarrow>
     defaultMouse name = None"
  by (auto simp add: defaultMouse_def)

lemma defaultMouse_slots:
  "defaultMouse ''click'' = Some (Handler TOGGLE_SELECTED)"
  "defaultMouse ''dblClick'' = Some Null"
  "defaultMouse ''contextMenu'' = Some Null"
  "defaultMouse ''expanderClick'' = Some (Handler TOGGLE_EXPANDED)"
  "defaultMouse ''drop'' = Some (Handler MOVE_NODE)"
  by (simp_all add: defaultMouse_def)

text \<open>
  Claim C3, as the code has it. For every action mapping the user supplies, entry by
  entry of \<^verbatim>\<open>mouse\<close> and of \<^verbatim>\<open>keys\<close>: an entry the user supplied, a handler or an
  explicit \<^verbatim>\<open>null\<close>, is the resolved entry; an entry the user left out, in a category
  that the user left out or gave as an object, resolves to the entry of the default
  mapping. A category that the user set to \<^verbatim>\<open>null\<close> is \<^verbatim>\<open>null\<close> in the resolved mapping.
\<close>

theorem actionMapping_deep_merge:
  assumes "options_actionMapping opts = Some user"
  shows "(entry (mouse user) name = Some v \<longrightarrow>
            entry (mouse (actionMapping (TreeOptions_new nk (Some opts)))) name = Some v)
       \<and> (mouse user \<noteq> Some IsNull \<and> entry (mouse user) name = None \<longrightarrow>
            entry (mouse (actionMapping (TreeOptions_new nk (Some opts)))) name =
            entry (mouse (defaultActionMapping nk)) name)
       \<and> (mouse user = Some IsNull \<longrightarrow>
            mouse (actionMapping (TreeOptions_new nk (Some opts))) = Some IsNull)
       \<and> (entry (keys user) code = Some w \<longrightarrow>
            entry (keys (actionMapping (TreeOptions_new nk (Some opts)))) code = Some w)
       \<and> (keys user \<noteq> Some IsNull \<and> entry (keys user) code = None \<longrightarrow>
            entry (keys (actionMapping (TreeOptions_new nk (Some opts)))) code =
            entry (keys (defaultActionMapping nk)) code)
       \<and> (keys user = Some IsNull \<longrightarrow>
            keys (actionMapping (TreeOptions_new nk (Some opts))) = Some IsNull)"
proof -
  have m1: "entry (mouse user) name = Some v \<longrightarrow>
      entry (mouse (actionMapping (TreeOptions_new nk (Some opts)))) name = Some v"
    using assms
    by (auto simp add: resolved_mouse_entry assignDefault_def
        split: option.splits nullable.splits)
  have m2: "mouse user \<noteq> Some IsNull \<and> entry (mouse user) name = None \<longrightarrow>
      entry (mouse (actionMapping (TreeOptions_new nk (Some opts)))) name =
      entry (mouse (defaultActionMapping nk)) name"
    using assms
    by (auto simp add: resolved_mouse_entry default_entries assignDefault_def
        split: option.splits nullable.splits)
  have k1: "entry (keys user) code = Some w \<longrightarrow>
      entry (keys (actionMapping (TreeOptions_new nk (Some opts)))) code = Some w"
    using assms
    by (auto simp add: resolved_keys_entry assignDefault_def
        split: option.splits nullable.splits)
  have k2: "keys user \<noteq> Some IsNull \<and> entry (keys user) code = None \<longrightarrow>
      entry (keys (actionMapping (TreeOptions_new nk (Some opts)))) code =
      entry (keys (defaultActionMapping nk)) code"
    using assms
    by (auto simp add: resolved_keys_entry default_entries assignDefault_def
        split: option.splits nullable.splits)
  from m1 m2 k1 k2 resolved_null_category [OF assms, of nk]
  show ?thesis by blast
qed

theorem actionMapping_deep_merge_witness:
  "entry (mouse (actionMapping (TreeOptions_new exampleKeys
      (Some (emptyOptions\<lparr>options_actionMapping := Some exampleMapping\<rparr>))))) ''click''
     = Some Null
   \<and> entry (mouse (actionMapping (TreeOptions_new exampleKeys
      (Some (emptyOptions\<lparr>options_actionMapping := Some exampleMapping\<rparr>))))) ''dblClick''
     = Some (Handler EXPAND)
   \<and> entry (mouse (actionMapping (TreeOptions_new exampleKeys
      (Some (emptyOptions\<lparr>options_actionMapping := Some exampleMapping\<rparr>))))) ''expanderClick''
     = Some (Handler TOGGLE_EXPANDED)
   \<and> entry (keys (actionMapping (TreeOptions_new exampleKeys
      (Some (emptyOptions\<lparr>options_actionMapping := Some exampleMapping\<rparr>))))) 13
     = Some Null
   \<and> entry (keys (actionMapping (TreeOptions_new exampleKeys
      (Some (emptyOptions\<lparr>options_actionMapping := Some exampleMapping\<rparr>))))) 40
     = Some (Handler NEXT_NODE)
   \<and> mouse (actionMapping (TreeOptions_new exampleKeys
      (Some (emptyOptions\<lparr>options_actionMapping := Some exampleNullMouse\<rparr>)))) = Some IsNull
   \<and> entry (keys (actionMapping (TreeOptions_new exampleKeys
      (Some (emptyOptions\<lparr>options_actionMapping := Some exampleNullMouse\<rparr>))))) 40
     = Some (Handler NEXT_NODE)
   \<and> keys (actionMapping (TreeOptions_new exampleKeys
      (Some (emptyOptions\<lparr>options_actionMapping := Some exampleNullKeys\<rparr>)))) = Some IsNull
   \<and> entry (mouse (actionMapping (TreeOptions_new exampleKeys
      (Some (emptyOptions\<lparr>options_actionMapping := Some exampleNullKeys\<rparr>))))) ''drop''
     = Some (Handler MOVE_NODE)"
  using
    actionMapping_deep_merge [where opts = "emptyOptions\<lparr>options_actionMapping := Some exampleMapping\<rparr>"
      and user = exampleMapping and nk = exampleKeys
      and name = "''click''" and v = Null and code = 13 and w = Null]
    actionMapping_deep_merge [where opts = "emptyOptions\<lparr>options_actionMapping := Some exampleMapping\<rparr>"
      and user = exampleMapping and nk = exampleKeys
      and name = "''dblClick''" and v = "Handler EXPAND" and code = 40]
    actionMapping_deep_merge [where opts = "emptyOptions\<lparr>options_actionMapping := Some exampleMapping\<rparr>"
      and user = exampleMapping and nk = exampleKeys
      and name = "''expanderClick''" and code = 40]
    actionMapping_deep_merge [where opts = "emptyOptions\<lparr>options_actionMapping := Some exampleNullMouse\<rparr>"
      and user = exampleNullMouse and nk = exampleKeys
      and name = "''click''" and code = 40]
    actionMapping_deep_merge [where opts = "emptyOptions\<lparr>options_actionMapping := Some exampleNullKeys\<rparr>"
      and user = exampleNullKeys and nk = exampleKeys
      and name = "''drop''" and code = 40]
  by (simp add: exampleMapping_def exampleNullMouse_def exampleNullKeys_def exampleKeys_def
      default_entries
      defaultMouse_def defaultKeys_def)

text \<open>
  Claim C3 as the specification words it, the default for every entry the user left
  out, fails for the user mapping \<^verbatim>\<open>{ mouse: null }\<close>: the user supplied no \<^verbatim>\<open>click\<close>
  entry, the resolved \<^verbatim>\<open>mouse\<close> is \<^verbatim>\<open>null\<close> and holds no \<^verbatim>\<open>click\<close> entry, while the
  default mapping holds \<^verbatim>\<open>TOGGLE_SELECTED\<close> there.
\<close>

theorem null_mouse_stays_null:
  "entry (mouse exampleNullMouse) ''click'' = None
   \<and> mouse (actionMapping (TreeOptions_new exampleKeys
        (Some (emptyOptions\<lparr>options_actionMapping := Some exampleNullMouse\<rparr>)))) = Some IsNull
   \<and> entry (mouse (actionMapping (TreeOptions_new exampleKeys
        (Some (emptyOptions\<lparr>options_actionMapping := Some exampleNullMouse\<rparr>))))) ''click''
       = None
   \<and> entry (mouse (defaultActionMapping exampleKeys)) ''click''
       = Some (Handler TOGGLE_SELECTED)"
  by (simp add: exampleNullMouse_def resolved_mouse_entry resolved_null_category
      default_entries defaultMouse_slots)

text \<open>
  Claim C4, as the code has it. Without a user mapping the resolved slots \<^verbatim>\<open>click\<close>,
  \<^verbatim>\<open>expanderClick\<close> and \<^verbatim>\<open>drop\<close> hold handlers, \<^verbatim>\<open>dblClick\<close> and \<^verbatim>\<open>contextMenu\<close> hold an
  explicit \<^verbatim>\<open>null\<close>, and every key code of the default mapping holds a handler. The
  gestures \<^verbatim>\<open>dragStart\<close>, \<^verbatim>\<open>drag\<close>, \<^verbatim>\<open>dragEnd\<close>, \<^verbatim>\<open>dragOver\<close>, \<^verbatim>\<open>dragLeave\<close> and
  \<^verbatim>\<open>dragEnter\<close> have no entry in the default mapping: their slots are absent.
\<close>

theorem slots_without_user_mapping:
  assumes "options_actionMapping opts = None"
  shows "entry (mouse (actionMapping (TreeOptions_new nk (Some opts)))) ''click''
           = Some (Handler TOGGLE_SELECTED)
       \<and> entry (mouse (actionMapping (TreeOptions_new nk (Some opts)))) ''dblClick'' = Some Null
       \<and> entry (mouse (actionMapping (TreeOptions_new nk (Some opts)))) ''contextMenu'' = Some Null
       \<and> entry (mouse (actionMapping (TreeOptions_new nk (Some opts)))) ''expanderClick''
           = Some (Handler TOGGLE_EXPANDED)
       \<and> entry (mouse (actionMapping (TreeOptions_new nk (Some opts)))) ''drop''
           = Some (Handler MOVE_NODE)
       \<and> (code \<in> {RIGHT nk, LEFT nk, DOWN nk, UP nk, SPACE nk, ENTER nk} \<longrightarrow>
            (\<exists>h. entry (keys (actionMapping (TreeOptions_new nk (Some opts)))) code
                   = Some (Handler h)))
       \<and> (name \<in> {''dragStart'', ''drag'', ''dragEnd'', ''dragOver'', ''dragLeave'', ''dragEnter''} \<longrightarrow>
            entry (mouse (actionMapping (TreeOptions_new nk (Some opts)))) name = None)"
  using assms defaultKeys_handler [of code nk] defaultMouse_drag [of name]
  by (simp add: resolved_mouse_entry resolved_keys_entry defaultMouse_slots)

theorem slots_without_user_mapping_witness:
  "entry (mouse (actionMapping (TreeOptions_new exampleKeys (Some emptyOptions)))) ''click''
     = Some (Handler TOGGLE_SELECTED)
   \<and> entry (mouse (actionMapping (TreeOptions_new exampleKeys (Some emptyOptions)))) ''dblClick''
     = Some Null
   \<and> (\<exists>h. entry (keys (actionMapping (TreeOptions_new exampleKeys (Some emptyOptions)))) 37
         = Some (Handler h))
   \<and> entry (mouse (actionMapping (TreeOptions_new exampleKeys (Some emptyOptions)))) ''dragOver''
     = None"
  using slots_without_user_mapping [where opts = emptyOptions and nk = exampleKeys
      and code = 37 and name = "''dragOver''"]
  by (simp add: emptyOptions_def exampleKeys_def)

text \<open>
  Claim C4 as the specification words it, every gesture of the action-mapping surface
  holding a handler or \<^verbatim>\<open>null\<close>, fails at \<^verbatim>\<open>dragStart\<close>.
\<close>

theorem dragStart_slot_absent:
  "entry (mouse (actionMapping (TreeOptions_new exampleKeys None))) ''dragStart'' = None"
  by (simp add: resolved_default default_entries defaultMouse_def)

text \<open>
  Claim C6. In the default mapping, and in the mapping resolved without user overrides,
  \<^verbatim>\<open>click\<close> holds \<^verbatim>\<open>TOGGLE_SELECTED\<close>, which invokes \<^verbatim>\<open>toggleActivated\<close> on the node
  without the \<^verbatim>\<open>multi\<close> argument, and the key code \<^verbatim>\<open>DOWN\<close> holds \<^verbatim>\<open>NEXT_NODE\<close>, which
  invokes \<^verbatim>\<open>focusNextNode\<close> on the tree. The key codes are a parameter; \<^verbatim>\<open>DOWN\<close> has to
  differ from the codes written after it in the literal.
\<close>

theorem default_click_and_down:
  assumes "DOWN nk \<notin> {UP nk, SPACE nk, ENTER nk}"
  shows "entry (mouse (defaultActionMapping nk)) ''click'' = Some (Handler TOGGLE_SELECTED)
       \<and> entry (mouse (actionMapping (TreeOptions_new nk None))) ''click''
           = Some (Handler TOGGLE_SELECTED)
       \<and> TOGGLE_SELECTED tree (Some node) event rest = Inr [toggleActivated node None]
       \<and> entry (keys (defaultActionMapping nk)) (DOWN nk) = Some (Handler NEXT_NODE)
       \<and> entry (keys (actionMapping (TreeOptions_new nk None))) (DOWN nk)
           = Some (Handler NEXT_NODE)
       \<and> NEXT_NODE tree focused event rest = Inr [focusNextNode tree]"
  using assms
  by (simp add: resolved_default default_entries defaultMouse_def defaultKeys_def
      TOGGLE_SELECTED_def NEXT_NODE_def)

theorem default_click_and_down_witness:
  "DOWN exampleKeys \<notin> {UP exampleKeys, SPACE exampleKeys, ENTER exampleKeys}
   \<and> entry (mouse (actionMapping (TreeOptions_new exampleKeys None))) ''click''
       = Some (Handler TOGGLE_SELECTED)
   \<and> TOGGLE_SELECTED (TreeModelRef 0) (Some (exampleNode 1 False)) JUndefined None
       = Inr [toggleActivated (exampleNode 1 False) None]
   \<and> entry (keys (actionMapping (TreeOptions_new exampleKeys None))) 40
       = Some (Handler NEXT_NODE)
   \<and> NEXT_NODE (TreeModelRef 0) None JUndefined None = Inr [focusNextNode (TreeModelRef 0)]"
  using default_click_and_down [where nk = exampleKeys and tree = "TreeModelRef 0"
      and node = "exampleNode 1 False" and event = JUndefined and rest = None
      and focused = None]
  by (simp add: exampleKeys_def)

section \<open>Toggling a node without children\<close>

text \<open>
  Claim C7. On a node whose \<^verbatim>\<open>hasChildren\<close> is false the built-in
  \<^verbatim>\<open>TOGGLE_EXPANDED\<close> does nothing: it invokes no method, \<^verbatim>\<open>toggleExpanded\<close> in
  particular, and whatever the methods mean, the state after the action is the state
  before it.
\<close>

theorem TOGGLE_EXPANDED_no_children:
  assumes "\<not> hasChildren node"
  shows "TOGGLE_EXPANDED tree (Some node) event rest = Inr []
       \<and> (\<forall>cs target. TOGGLE_EXPANDED tree (Some node) event rest = Inr cs \<longrightarrow>
             toggleExpanded target \<notin> set cs)
       \<and> run_action sem (TOGGLE_EXPANDED tree (Some node) event rest) s = Inr s"
  using assms by (simp add: TOGGLE_EXPANDED_def run_action_def)

theorem TOGGLE_EXPANDED_no_children_witness:
  "\<not> hasChildren (exampleNode 2 False)
   \<and> TOGGLE_EXPANDED (TreeModelRef 0) (Some (exampleNode 2 False)) JUndefined None = Inr []
   \<and> run_action (\<lambda>c (n::nat). Suc n)
        (TOGGLE_EXPANDED (TreeModelRef 0) (Some (exampleNode 2 False)) JUndefined None) 0
       = Inr 0"
  using TOGGLE_EXPANDED_no_children [where node = "exampleNode 2 False"
      and tree = "TreeModelRef 0" and event = JUndefined and rest = None
      and sem = "\<lambda>c (n::nat). Suc n" and s = 0]
  by (simp add: exampleNode_def run_action_def)

section \<open>Resolution as a whole\<close>

text \<open>
  Claim C1, as the code has it. The constructor returns for every configuration object,
  the empty one included, and for no argument, which it takes as the empty object. Left
  unset, the action mapping, the five field names, \<^verbatim>\<open>levelPadding\<close>,
  \<^verbatim>\<open>dropSlotHeight\<close>, \<^verbatim>\<open>nodeClass\<close>, \<^verbatim>\<open>nodeHeight\<close> and \<^verbatim>\<open>allowDrop\<close> resolve to their
  defaults. \<^verbatim>\<open>enableDragAndDrop\<close> and \<^verbatim>\<open>getChildren\<close> have no default: the getter hands
  out the option as it is, set or unset, so \<^verbatim>\<open>undefined\<close> when unset.
  \<^verbatim>\<open>useVirtualScroll\<close> and \<^verbatim>\<open>allowDrag\<close>, left unset, do not hold in a condition.
\<close>

theorem resolve_defaults:
  "new_TreeOptions nk (Some (NotNull opts)) = Inr (TreeOptions_new nk (Some opts))
   \<and> new_TreeOptions nk (Some (NotNull emptyOptions))
        = Inr (TreeOptions_new nk (Some emptyOptions))
   \<and> new_TreeOptions nk None = Inr (TreeOptions_new nk (Some emptyOptions))
   \<and> (options_actionMapping opts = None \<longrightarrow>
        actionMapping (TreeOptions_new nk (Some opts)) = defaultActionMapping nk)
   \<and> (options_childrenField opts = None \<longrightarrow>
        childrenField (TreeOptions_new nk (Some opts)) = ''children'')
   \<and> (options_displayField opts = None \<longrightarrow>
        displayField (TreeOptions_new nk (Some opts)) = ''name'')
   \<and> (options_idField opts = None \<longrightarrow>
        idField (TreeOptions_new nk (Some opts)) = ''id'')
   \<and> (options_isExpandedField opts = None \<longrightarrow>
        isExpandedField (TreeOptions_new nk (Some opts)) = ''isExpanded'')
   \<and> (options_isHiddenField opts = None \<longrightarrow>
        isHiddenField (TreeOptions_new nk (Some opts)) = ''isHidden'')
   \<and> (options_levelPadding opts = None \<longrightarrow>
        levelPadding (TreeOptions_new nk (Some opts)) = Finite 0)
   \<and> (options_dropSlotHeight opts = None \<longrightarrow>
        dropSlotHeight (TreeOptions_new nk (Some opts)) = Finite 2)
   \<and> (options_nodeClass opts = None \<longrightarrow>
        nodeClass (TreeOptions_new nk (Some opts)) node = [])
   \<and> (options_nodeHeight opts = None \<longrightarrow>
        nodeHeight (TreeOptions_new nk (Some opts)) node =
          (if truthy (getProp (data node) ''virtual'') then Finite 0
           else if index node = Finite 0 then Finite 24 else Finite 23))
   \<and> (options_allowDrop opts = None \<longrightarrow>
        allowDrop (TreeOptions_new nk (Some opts)) element to event = True)
   \<and> enableDragAndDrop (TreeOptions_new nk (Some opts)) = options_enableDragAndDrop opts
   \<and> getChildren (TreeOptions_new nk (Some opts)) = options_getChildren opts
   \<and> (options_useVirtualScroll opts = None \<longrightarrow>
        \<not> truthy_bool (useVirtualScroll (TreeOptions_new nk (Some opts))))
   \<and> (options_allowDrag opts = None \<longrightarrow>
        \<not> truthy_bool (allowDrag (TreeOptions_new nk (Some opts)) node))"
proof -
  have returns:
    "new_TreeOptions nk (Some (NotNull opts)) = Inr (TreeOptions_new nk (Some opts))"
    "new_TreeOptions nk (Some (NotNull emptyOptions))
       = Inr (TreeOptions_new nk (Some emptyOptions))"
    "new_TreeOptions nk None = Inr (TreeOptions_new nk (Some emptyOptions))"
    by (simp_all add: new_TreeOptions_def TreeOptions_new_def)
  have names:
    "options_childrenField opts = None \<longrightarrow>
       childrenField (TreeOptions_new nk (Some opts)) = ''children''"
    "options_displayField opts = None \<longrightarrow>
       displayField (TreeOptions_new nk (Some opts)) = ''name''"
    "options_idField opts = None \<longrightarrow>
       idField (TreeOptions_new nk (Some opts)) = ''id''"
    "options_isExpandedField opts = None \<longrightarrow>
       isExpandedField (TreeOptions_new nk (Some opts)) = ''isExpanded''"
    "options_isHiddenField opts = None \<longrightarrow>
       isHiddenField (TreeOptions_new nk (Some opts)) = ''isHidden''"
    by (simp_all add: childrenField_def displayField_def idField_def isExpandedField_def
        isHiddenField_def or_string_def)
  have sizes:
    "options_levelPadding opts = None \<longrightarrow>
       levelPadding (TreeOptions_new nk (Some opts)) = Finite 0"
    "options_dropSlotHeight opts = None \<longrightarrow>
       dropSlotHeight (TreeOptions_new nk (Some opts)) = Finite 2"
    "options_nodeHeight opts = None \<longrightarrow>
       nodeHeight (TreeOptions_new nk (Some opts)) node =
         (if truthy (getProp (data node) ''virtual'') then Finite 0
          else if index node = Finite 0 then Finite 24 else Finite 23)"
    by (simp_all add: levelPadding_def dropSlotHeight_def or_number_def nodeHeight_def)
  have rest:
    "options_nodeClass opts = None \<longrightarrow>
       nodeClass (TreeOptions_new nk (Some opts)) node = []"
    "options_allowDrop opts = None \<longrightarrow>
       allowDrop (TreeOptions_new nk (Some opts)) element to event = True"
    "enableDragAndDrop (TreeOptions_new nk (Some opts)) = options_enableDragAndDrop opts"
    "getChildren (TreeOptions_new nk (Some opts)) = options_getChildren opts"
    "options_useVirtualScroll opts = None \<longrightarrow>
       \<not> truthy_bool (useVirtualScroll (TreeOptions_new nk (Some opts)))"
    "options_allowDrag opts = None \<longrightarrow>
       \<not> truthy_bool (allowDrag (TreeOptions_new nk (Some opts)) node)"
    by (simp_all add: nodeClass_def allowDrop_def enableDragAndDrop_def getChildren_def
        useVirtualScroll_def allowDrag_def truthy_bool_def)
  from returns resolved_without_user [of opts nk] names sizes rest
  show ?thesis by blast
qed

theorem resolve_defaults_witness:
  "new_TreeOptions exampleKeys (Some (NotNull emptyOptions))
     = Inr (TreeOptions_new exampleKeys (Some emptyOptions))
   \<and> actionMapping (TreeOptions_new exampleKeys (Some emptyOptions)) = defaultActionMapping exampleKeys
   \<and> childrenField (TreeOptions_new exampleKeys (Some emptyOptions)) = ''children''
   \<and> displayField (TreeOptions_new exampleKeys (Some emptyOptions)) = ''name''
   \<and> idField (TreeOptions_new exampleKeys (Some emptyOptions)) = ''id''
   \<and> isExpandedField (TreeOptions_new exampleKeys (Some emptyOptions)) = ''isExpanded''
   \<and> isHiddenField (TreeOptions_new exampleKeys (Some emptyOptions)) = ''isHidden''
   \<and> levelPadding (TreeOptions_new exampleKeys (Some emptyOptions)) = Finite 0
   \<and> dropSlotHeight (TreeOptions_new exampleKeys (Some emptyOptions)) = Finite 2
   \<and> nodeClass (TreeOptions_new exampleKeys (Some emptyOptions)) (exampleNode 0 False) = []
   \<and> nodeHeight (TreeOptions_new exampleKeys (Some emptyOptions)) (exampleNode 0 False) = Finite 24
   \<and> allowDrop (TreeOptions_new exampleKeys (Some emptyOptions))
        (JString ''item'') exampleTarget JUndefined
   \<and> enableDragAndDrop (TreeOptions_new exampleKeys (Some emptyOptions)) = None
   \<and> getChildren (TreeOptions_new exampleKeys (Some emptyOptions)) = None
   \<and> \<not> truthy_bool (useVirtualScroll (TreeOptions_new exampleKeys (Some emptyOptions)))
   \<and> \<not> truthy_bool (allowDrag (TreeOptions_new exampleKeys (Some emptyOptions))
          (exampleNode 0 False))"
  using resolve_defaults [where opts = emptyOptions and nk = exampleKeys
      and node = "exampleNode 0 False" and element = "JString ''item''"
      and to = exampleTarget and event = JUndefined]
  by (simp add: emptyOptions_def exampleNode_def getProp_def)

text \<open>
  Claim C1 as the specification words it, a defined value for every unset field, fails
  on the empty configuration object: the three getters it names return \<^verbatim>\<open>undefined\<close>.
\<close>

theorem unset_flags_undefined:
  "useVirtualScroll (TreeOptions_new exampleKeys (Some emptyOptions)) = None
   \<and> enableDragAndDrop (TreeOptions_new exampleKeys (Some emptyOptions)) = None
   \<and> allowDrag (TreeOptions_new exampleKeys (Some emptyOptions)) (exampleNode 0 False) = None"
  by (simp add: useVirtualScroll_def enableDragAndDrop_def allowDrag_def emptyOptions_def)

end
